theory Spec2Isabelle
  imports Main
begin

section \<open>Data model of \<open>libertem/udf/base.py\<close>\<close>

text \<open>
  Python exceptions raised by the modelled code are values of one datatype; a function that
  can raise returns \<open>error + 'a\<close> (\<open>Inl\<close> is the raised exception), or a pair of an optional
  error and the state left behind where the state after the raise matters.
\<close>

datatype error =
    NotImplementedError
  | TypeError
  | ValueError
  | AssertionError
  | AttributeError
  | KeyError
  | IndexError
  | ImportError
  | CUDARuntimeError

text \<open>
  \<open>BufferWrapper(kind, extra_shape, dtype, where)\<close>: the class lives in
  \<open>libertem.common.buffers\<close>; the fields are the constructor arguments that \<open>UDF.buffer\<close>
  passes, plus the storage behind the \<open>raw_data\<close> property.
\<close>

record 'w bufferwrapper =
  kind :: string
  extra_shape :: "nat list"
  buf_dtype :: string
  buf_where :: "string option"
  raw_data :: 'w

text \<open>
  A value stored in a \<open>UDFData\<close> dict is a buffer (it has \<open>raw_data\<close> and \<open>has_data\<close>) or any
  other Python value.
\<close>

datatype ('w, 'p) entry = Buf "'w bufferwrapper" | Plain 'p

text \<open>\<open>UDFData\<close>: the dict \<open>_data\<close> (insertion ordered) and the dict \<open>_views\<close>.\<close>

record ('w, 'p) udfdata =
  data :: "(string \<times> ('w, 'p) entry) list"
  views :: "string \<rightharpoonup> 'w"

text \<open>
  The functions of \<open>numpy\<close> that the modelled code calls, over an array type \<open>'w\<close>:
  \<open>arr.dtype\<close>, \<open>np.can_cast(a, b, casting='safe')\<close>, \<open>np.result_type(a, b)\<close> and the slice
  assignment \<open>dest[:] = src\<close>, which answers the array left in \<open>dest\<close> or \<open>None\<close> where numpy
  raises \<open>ValueError\<close> (shapes that do not broadcast). They are parameters of the model.
\<close>

record 'w numpy =
  np_dtype :: "'w \<Rightarrow> string"
  can_cast :: "string \<Rightarrow> string \<Rightarrow> bool"
  result_type :: "string \<Rightarrow> string \<Rightarrow> string"
  setitem :: "'w \<Rightarrow> 'w \<Rightarrow> 'w option"

text \<open>What attribute access on a \<open>UDFData\<close> answers: an array (a view or \<open>raw_data\<close>) or the
  stored value itself.\<close>

datatype ('w, 'p) pyval = Array 'w | Other 'p

section \<open>\<open>UDFData\<close>\<close>

definition UDFData_init :: "(string \<times> ('w, 'p) entry) list \<Rightarrow> ('w, 'p) udfdata" where
  "UDFData_init d = \<lparr> data = d, views = Map.empty \<rparr>"

definition startswith :: "string \<Rightarrow> string \<Rightarrow> bool" where
  "startswith k p = (take (length p) k = p)"

definition get_view_or_data :: "('w, 'p) udfdata \<Rightarrow> string \<Rightarrow> error + ('w, 'p) pyval" where
  "get_view_or_data d k =
     (case views d k of
        Some v \<Rightarrow> Inr (Array v)
      | None \<Rightarrow>
          (case map_of (data d) k of
             None \<Rightarrow> Inl KeyError
           | Some (Buf b) \<Rightarrow> Inr (Array (raw_data b))
           | Some (Plain x) \<Rightarrow> Inr (Other x)))"

text \<open>\<open>__getattr__\<close>: the \<open>except KeyError\<close> clause turns a \<open>KeyError\<close> into an
  \<open>AttributeError\<close> and lets everything else through.\<close>

definition getattr :: "('w, 'p) udfdata \<Rightarrow> string \<Rightarrow> error + ('w, 'p) pyval" where
  "getattr d k =
     (if startswith k ''_'' then Inl AttributeError
      else (case get_view_or_data d k of
              Inl KeyError \<Rightarrow> Inl AttributeError
            | r \<Rightarrow> r))"

text \<open>\<open>get\<close>: only a \<open>KeyError\<close> coming out of \<open>__getattr__\<close> is replaced by the default.\<close>

definition get :: "('w, 'p) udfdata \<Rightarrow> string \<Rightarrow> ('w, 'p) pyval \<Rightarrow> error + ('w, 'p) pyval" where
  "get d k dflt =
     (case getattr d k of
        Inl KeyError \<Rightarrow> Inr dflt
      | r \<Rightarrow> r)"

text \<open>\<open>_get_buffers()\<close> without \<open>filter_allocated\<close>: the entries that have \<open>has_data\<close>, in dict
  order.\<close>

fun get_buffers :: "(string \<times> ('w, 'p) entry) list \<Rightarrow> (string \<times> 'w bufferwrapper) list" where
  "get_buffers [] = []"
| "get_buffers ((k, Buf b) # rest) = (k, b) # get_buffers rest"
| "get_buffers ((k, Plain x) # rest) = get_buffers rest"

text \<open>
  The five \<open>set_view_for_*\<close> methods differ in the \<open>BufferWrapper\<close> method they call
  (\<open>get_view_for_dataset\<close>, \<open>get_view_for_partition\<close>, ...), which is the parameter \<open>get_view\<close>.
\<close>

fun set_views_loop ::
  "('w bufferwrapper \<Rightarrow> 'w) \<Rightarrow> (string \<times> 'w bufferwrapper) list \<Rightarrow> (string \<rightharpoonup> 'w)
     \<Rightarrow> (string \<rightharpoonup> 'w)" where
  "set_views_loop get_view [] vs = vs"
| "set_views_loop get_view ((k, buf) # rest) vs = set_views_loop get_view rest (vs(k \<mapsto> get_view buf))"

definition set_view_for :: "('w bufferwrapper \<Rightarrow> 'w) \<Rightarrow> ('w, 'p) udfdata \<Rightarrow> ('w, 'p) udfdata" where
  "set_view_for get_view d = d\<lparr> views := set_views_loop get_view (get_buffers (data d)) (views d) \<rparr>"

definition clear_views :: "('w, 'p) udfdata \<Rightarrow> ('w, 'p) udfdata" where
  "clear_views d = d\<lparr> views := Map.empty \<rparr>"


text \<open>
  \<open>new_for_partition\<close>: every buffer of \<open>_data\<close> is replaced, under its key, by
  \<open>buf.new_for_partition(partition, roi)\<close>; that method of \<open>AuxBufferWrapper\<close> is the
  parameter \<open>nfp\<close>, already applied to the partition and the ROI.
\<close>

fun new_for_partition_loop ::
  "('w bufferwrapper \<Rightarrow> 'w bufferwrapper) \<Rightarrow> (string \<times> ('w, 'p) entry) list
     \<Rightarrow> (string \<times> ('w, 'p) entry) list" where
  "new_for_partition_loop nfp [] = []"
| "new_for_partition_loop nfp ((k, Buf b) # rest) = (k, Buf (nfp b)) # new_for_partition_loop nfp rest"
| "new_for_partition_loop nfp ((k, Plain x) # rest) = (k, Plain x) # new_for_partition_loop nfp rest"

definition new_for_partition ::
  "('w bufferwrapper \<Rightarrow> 'w bufferwrapper) \<Rightarrow> ('w, 'p) udfdata \<Rightarrow> ('w, 'p) udfdata" where
  "new_for_partition nfp d = d\<lparr> data := new_for_partition_loop nfp (data d) \<rparr>"

text \<open>The class invariant that the methods above keep: a view exists only under a key of
  \<open>_data\<close>.\<close>

definition views_within_data :: "('w, 'p) udfdata \<Rightarrow> bool" where
  "views_within_data d = (dom (views d) \<subseteq> fst ` set (data d))"

text \<open>
  A \<open>UDF\<close> instance. The overridable methods without arguments are represented by what they
  return; \<open>get_result_buffers\<close> is \<open>None\<close> for the base class, whose method raises
  \<open>NotImplementedError\<close>. \<open>hasattr(self, 'process_tile')\<close> and its siblings are the three flags.
\<close>

record ('w, 'p) udf =
  get_backends :: "string list"
  get_preferred_input_dtype :: string
  get_result_buffers :: "(string \<times> 'w bufferwrapper) list option"
  has_process_tile :: bool
  has_process_frame :: bool
  has_process_partition :: bool
  kwargs :: "(string \<times> ('w, 'p) entry) list"
  params :: "('w, 'p) udfdata"
  task_data :: "('w, 'p) udfdata option"
  results :: "('w, 'p) udfdata option"
  backend :: string
  requires_custom_merge_cache :: "bool option"

section \<open>\<open>UDFBase.get_method\<close>\<close>

definition get_method :: "('w, 'p) udf \<Rightarrow> error + string" where
  "get_method u =
     (if has_process_tile u then Inr ''tile''
      else if has_process_frame u then Inr ''frame''
      else if has_process_partition u then Inr ''partition''
      else Inl TypeError)"

section \<open>\<open>UDF.requires_custom_merge\<close>, \<open>check_cast\<close> and the default \<open>UDF.merge\<close>\<close>

text \<open>
  The property caches its answer in \<open>_requires_custom_merge\<close>; it answers the value and the
  instance with the cache filled. The base class's \<open>get_result_buffers\<close> raises.
\<close>

definition requires_custom_merge :: "('w, 'p) udf \<Rightarrow> (error + bool) \<times> ('w, 'p) udf" where
  "requires_custom_merge u =
     (case requires_custom_merge_cache u of
        Some b \<Rightarrow> (Inr b, u)
      | None \<Rightarrow>
          (case get_result_buffers u of
             None \<Rightarrow> (Inl NotImplementedError, u)
           | Some buffers \<Rightarrow>
               (let b = list_ex (\<lambda>buffer. kind buffer \<noteq> ''nav'') (map snd buffers)
                in (Inr b, u\<lparr> requires_custom_merge_cache := Some b \<rparr>))))"

definition check_cast :: "'w numpy \<Rightarrow> 'w \<Rightarrow> 'w \<Rightarrow> error option" where
  "check_cast np fromvar tovar =
     (if \<not> can_cast np (np_dtype np fromvar) (np_dtype np tovar) then Some TypeError else None)"

text \<open>
  The loop \<open>for k in dest: check_cast(dest[k], src[k]); dest[k][:] = src[k]\<close>. The arrays of
  \<open>dest\<close> are written in place, so the loop answers the raised error, if any, together with
  \<open>dest\<close> as it is when the loop stops.
\<close>

fun merge_loop ::
  "'w numpy \<Rightarrow> (string \<times> 'w) list \<Rightarrow> (string \<times> 'w) list \<Rightarrow> error option \<times> (string \<times> 'w) list" where
  "merge_loop np src [] = (None, [])"
| "merge_loop np src ((k, d) # rest) =
     (case map_of src k of
        None \<Rightarrow> (Some KeyError, (k, d) # rest)
      | Some s \<Rightarrow>
          (case check_cast np d s of
             Some e \<Rightarrow> (Some e, (k, d) # rest)
           | None \<Rightarrow>
               (case setitem np d s of
                  None \<Rightarrow> (Some ValueError, (k, d) # rest)
                | Some d' \<Rightarrow>
                    (case merge_loop np src rest of (e, rest') \<Rightarrow> (e, (k, d') # rest')))))"

definition merge ::
  "'w numpy \<Rightarrow> ('w, 'p) udf \<Rightarrow> (string \<times> 'w) list \<Rightarrow> (string \<times> 'w) list
     \<Rightarrow> (error option \<times> (string \<times> 'w) list) \<times> ('w, 'p) udf" where
  "merge np u dest src =
     (case requires_custom_merge u of
        (Inl e, u') \<Rightarrow> ((Some e, dest), u')
      | (Inr True, u') \<Rightarrow> ((Some NotImplementedError, dest), u')
      | (Inr False, u') \<Rightarrow> (merge_loop np src dest, u'))"

section \<open>\<open>UDFRunner._udf_lists\<close>\<close>

text \<open>The loop of the \<open>'cuda'\<close> branch; the two accumulators are the lists being appended to.\<close>

fun udf_lists_cuda ::
  "('w, 'p) udf list \<Rightarrow> ('w, 'p) udf list \<Rightarrow> ('w, 'p) udf list
     \<Rightarrow> error + (('w, 'p) udf list \<times> ('w, 'p) udf list)" where
  "udf_lists_cuda [] numpy_udfs cupy_udfs = Inr (numpy_udfs, cupy_udfs)"
| "udf_lists_cuda (u # us) numpy_udfs cupy_udfs =
     (if ''cuda'' \<in> set (get_backends u) then udf_lists_cuda us (numpy_udfs @ [u]) cupy_udfs
      else if ''cupy'' \<in> set (get_backends u) then udf_lists_cuda us numpy_udfs (cupy_udfs @ [u])
      else Inl ValueError)"

definition udf_lists ::
  "('w, 'p) udf list \<Rightarrow> string \<Rightarrow> error + (('w, 'p) udf list \<times> ('w, 'p) udf list)" where
  "udf_lists udfs device_class =
     (if device_class = ''cuda'' then udf_lists_cuda udfs [] []
      else if device_class = ''cpu'' then
        (if list_all (\<lambda>u. ''numpy'' \<in> set (get_backends u)) udfs
         then Inr (udfs, []) else Inl AssertionError)
      else Inl ValueError)"

section \<open>Partitions, datasets and \<open>UDFMeta\<close>\<close>

text \<open>
  Modelled from the spec: \<open>Partition\<close>, \<open>DataSet\<close> and \<open>Slice\<close> live in
  \<open>libertem.io.dataset.base\<close> and \<open>libertem.common\<close>. A partition is a contiguous block of
  navigation positions and its slice an (origin, shape) pair; with the navigation axes
  flattened, as \<open>roi.reshape(-1)\<close> indexes them, \<open>slice.get(nav_only=True)\<close> is the range from
  \<open>slice_origin\<close> of length \<open>slice_shape\<close>. Of a dataset the model keeps its dtype, the number of
  navigation positions and what \<open>get_partitions()\<close> yields.
\<close>

record partition =
  slice_origin :: nat
  slice_shape :: nat
  part_dtype :: string

record dataset =
  ds_dtype :: string
  ds_nav_size :: nat
  get_partitions :: "partition list"



section \<open>\<open>UDF.__init__\<close> and \<open>UDF.copy_for_partition\<close>\<close>

text \<open>
  \<open>self.__class__(**self._kwargs)\<close>: a new instance of the same class, so what the methods
  answer stays, and the instance attributes are what \<open>UDF.__init__\<close> assigns.
\<close>

definition new_instance :: "('w, 'p) udf \<Rightarrow> (string \<times> ('w, 'p) entry) list \<Rightarrow> ('w, 'p) udf" where
  "new_instance u kw =
     u\<lparr> backend := ''numpy'',
        kwargs := kw,
        params := UDFData_init kw,
        task_data := None,
        results := None,
        requires_custom_merge_cache := None \<rparr>"

text \<open>
  \<open>params._data\<close> of the new instance is the very dict stored as its \<open>_kwargs\<close>, so the
  buffers replaced by \<open>new_for_partition\<close> show in both. \<open>nfp\<close> is
  \<open>AuxBufferWrapper.new_for_partition\<close>.
\<close>

definition copy_for_partition ::
  "(partition \<Rightarrow> bool list option \<Rightarrow> 'w bufferwrapper \<Rightarrow> 'w bufferwrapper)
     \<Rightarrow> ('w, 'p) udf \<Rightarrow> partition \<Rightarrow> bool list option \<Rightarrow> ('w, 'p) udf" where
  "copy_for_partition nfp u p roi =
     (let inst = new_instance u (kwargs u);
          ps = new_for_partition (nfp p roi) (params inst)
      in inst\<lparr> params := ps, kwargs := data ps \<rparr>)"

section \<open>\<open>UDFTask\<close>\<close>

record ('w, 'p, 'c) udftask =
  task_partition :: partition
  task_idx :: nat
  task_udfs :: "('w, 'p) udf list"
  task_roi :: "bool list option"
  task_backends :: "string list option"
  task_corrections :: "'c option"

text \<open>The loop \<open>for backend_set in backends_for_udfs: backends.intersection_update(backend_set)\<close>.\<close>

fun intersection_update_all :: "string set \<Rightarrow> string set list \<Rightarrow> string set" where
  "intersection_update_all backends [] = backends"
| "intersection_update_all backends (backend_set # rest) =
     intersection_update_all (backends \<inter> backend_set) rest"

text \<open>
  \<open>UDFTask.get_resources\<close>; the resource dict is a list of pairs. \<open>backends_for_udfs[0]\<close> raises
  \<open>IndexError\<close> for a task without UDFs.
\<close>

definition get_resources :: "('w, 'p, 'c) udftask \<Rightarrow> error + (string \<times> nat) list" where
  "get_resources t =
     (let backends_for_udfs = map (\<lambda>u. set (get_backends u)) (task_udfs t)
      in case backends_for_udfs of
           [] \<Rightarrow> Inl IndexError
         | first # _ \<Rightarrow>
             (let backends = intersection_update_all first backends_for_udfs;
                  backends = (case task_backends t of
                                None \<Rightarrow> backends
                              | Some bs \<Rightarrow> set bs \<inter> backends)
              in if backends = {} then Inl ValueError
                 else if ''numpy'' \<in> backends \<and> (''cupy'' \<in> backends \<or> ''cuda'' \<in> backends)
                   then Inr [(''compute'', 1)]
                 else if ''numpy'' \<in> backends
                   then Inr [(''CPU'', 1), (''compute'', 1)]
                 else if ''cupy'' \<in> backends \<or> ''cuda'' \<in> backends
                   then Inr [(''CUDA'', 1), (''compute'', 1)]
                 else Inl ValueError))"

section \<open>\<open>UDFRunner\<close>: dtype, task generation, dispatch\<close>

text \<open>\<open>_get_dtype\<close>: the loop over \<open>self._udfs\<close>, \<open>tmp_dtype\<close> being the accumulator.\<close>

fun get_dtype :: "'w numpy \<Rightarrow> ('w, 'p) udf list \<Rightarrow> string \<Rightarrow> string" where
  "get_dtype np [] tmp_dtype = tmp_dtype"
| "get_dtype np (u # us) tmp_dtype =
     get_dtype np us (result_type np (get_preferred_input_dtype u) tmp_dtype)"


definition roi_for_partition :: "bool list \<Rightarrow> partition \<Rightarrow> bool list" where
  "roi_for_partition roi p = take (slice_shape p) (drop (slice_origin p) roi)"

definition count_nonzero :: "bool list \<Rightarrow> nat" where
  "count_nonzero xs = length (filter (\<lambda>b. b) xs)"

text \<open>\<open>_make_udf_tasks\<close>: the generator's loop over \<open>enumerate(dataset.get_partitions())\<close>.\<close>

fun make_udf_tasks_loop ::
  "(partition \<Rightarrow> bool list option \<Rightarrow> 'w bufferwrapper \<Rightarrow> 'w bufferwrapper)
     \<Rightarrow> ('w, 'p) udf list \<Rightarrow> bool list option \<Rightarrow> 'c option \<Rightarrow> string list option
     \<Rightarrow> nat \<Rightarrow> partition list \<Rightarrow> ('w, 'p, 'c) udftask list" where
  "make_udf_tasks_loop nfp udfs roi corrections backends i [] = []"
| "make_udf_tasks_loop nfp udfs roi corrections backends i (p # ps) =
     (if (case roi of None \<Rightarrow> False | Some r \<Rightarrow> count_nonzero (roi_for_partition r p) = 0)
      then make_udf_tasks_loop nfp udfs roi corrections backends (Suc i) ps
      else \<lparr> task_partition = p,
             task_idx = i,
             task_udfs = map (\<lambda>u. copy_for_partition nfp u p roi) udfs,
             task_roi = roi,
             task_backends = backends,
             task_corrections = corrections \<rparr>
           # make_udf_tasks_loop nfp udfs roi corrections backends (Suc i) ps)"

definition make_udf_tasks ::
  "(partition \<Rightarrow> bool list option \<Rightarrow> 'w bufferwrapper \<Rightarrow> 'w bufferwrapper)
     \<Rightarrow> ('w, 'p) udf list \<Rightarrow> dataset \<Rightarrow> bool list option \<Rightarrow> 'c option \<Rightarrow> string list option
     \<Rightarrow> ('w, 'p, 'c) udftask list" where
  "make_udf_tasks nfp udfs ds roi corrections backends =
     make_udf_tasks_loop nfp udfs roi corrections backends 0 (get_partitions ds)"



section \<open>\<open>UDFRunner.run_for_partition\<close>\<close>





section \<open>\<open>UDFRunner.run_for_dataset_async\<close>\<close>







section \<open>Example instances\<close>

text \<open>
  \<open>UDF.__init__\<close> with the defaults of the base class, and the two example classes of
  \<open>tests/utils.py\<close> as far as the modelled methods go. \<open>DebugDeviceUDF\<close> hands its \<open>backends\<close>
  to \<open>UDF.__init__\<close> as a keyword argument and answers them from \<open>get_backends\<close>; it overrides
  \<open>merge\<close>, so the default merge is never run on it.
\<close>

definition udf_init :: "(string \<times> ('w, 'p) entry) list \<Rightarrow> ('w, 'p) udf" where
  "udf_init kw =
     \<lparr> get_backends = [''numpy''],
       get_preferred_input_dtype = ''float32'',
       get_result_buffers = None,
       has_process_tile = False,
       has_process_frame = False,
       has_process_partition = False,
       kwargs = kw,
       params = UDFData_init kw,
       task_data = None,
       results = None,
       backend = ''numpy'',
       requires_custom_merge_cache = None \<rparr>"

text \<open>
  Example arrays are a dtype name with a flat list of values. \<open>numpy_example\<close> runs the model
  on them: on the chain bool, int16, float32, complex64 a safe cast goes upwards and
  \<open>result_type\<close> is the larger of the two (a name outside the chain counts as \<open>object\<close>, above
  all four), and a slice assignment between arrays of equal length keeps the destination's
  dtype and takes the source's values.
\<close>

definition dtype_rank :: "string \<Rightarrow> nat" where
  "dtype_rank t =
     (if t = ''bool'' then 0 else if t = ''int16'' then 1 else if t = ''float32'' then 2
      else if t = ''complex64'' then 3 else 4)"

definition numpy_example :: "(string \<times> int list) numpy" where
  "numpy_example =
     \<lparr> np_dtype = fst,
       can_cast = (\<lambda>a b. dtype_rank a \<le> dtype_rank b),
       result_type = (\<lambda>a b. if dtype_rank a \<le> dtype_rank b then b else a),
       setitem = (\<lambda>d s. if length (snd d) = length (snd s) then Some (fst d, snd s) else None) \<rparr>"

definition buffer :: "string \<Rightarrow> string \<Rightarrow> 'w \<Rightarrow> 'w bufferwrapper" where
  "buffer k dt w =
     \<lparr> kind = k, extra_shape = [], buf_dtype = dt, buf_where = None, raw_data = w \<rparr>"

definition PixelsumUDF :: "(string \<times> int list, string list) udf" where
  "PixelsumUDF =
     (udf_init [])\<lparr> get_result_buffers := Some [(''pixelsum'', buffer ''nav'' ''float32'' (''float32'', []))],
                    has_process_frame := True \<rparr>"

definition DebugDeviceUDF :: "string list \<Rightarrow> (string \<times> int list, string list) udf" where
  "DebugDeviceUDF bs =
     (udf_init [(''backends'', Plain bs)])
                  \<lparr> get_backends := bs,
                    get_result_buffers := Some
                      [(''device_id'', buffer ''single'' ''object'' (''object'', [])),
                       (''on_device'', (buffer ''sig'' ''float32'' (''float32'', []))\<lparr> buf_where := Some ''device'' \<rparr>),
                       (''device_class'', buffer ''nav'' ''object'' (''object'', [])),
                       (''backend'', buffer ''single'' ''object'' (''object'', []))],
                    has_process_partition := True \<rparr>"

text \<open>
  A result namespace as \<open>init_result_buffers\<close> followed by a \<open>set_view_for_*\<close> call leaves it:
  one buffer with its view set, and one plain value.
\<close>

definition results_example :: "(string \<times> int list, unit) udfdata" where
  "results_example =
     set_view_for raw_data
       (UDFData_init [(''pixelsum'', Buf (buffer ''nav'' ''float32'' (''float32'', [0, 0]))),
                      (''threshold'', Plain ())])"

text \<open>
  Instances for the runner and the dispatcher: a dataset of six navigation positions in three
  partitions of two; a task on the \<open>i\<close>-th of them; \<open>AuxBufferWrapper.new_for_partition\<close> on the
  example arrays, which keeps the part of a \<open>nav\<close> buffer that belongs to the partition (under a
  ROI the buffer holds the selected positions only, so the part starts at the number of
  selected positions before the partition); a UDF with such a buffer among its parameters;
  \<open>PixelsumUDF\<close> with its global result buffer allocated; a loop body for the dispatcher that
  writes a partition's result into the partition's range of every global buffer; and a CUDA
  worker with the devices 0 and 1, told to use device 1.
\<close>

definition partition_example :: "nat \<Rightarrow> nat \<Rightarrow> partition" where
  "partition_example start n = \<lparr> slice_origin = start, slice_shape = n, part_dtype = ''int16'' \<rparr>"

definition dataset_example :: dataset where
  "dataset_example =
     \<lparr> ds_dtype = ''int16'', ds_nav_size = 6,
       get_partitions = [partition_example 0 2, partition_example 2 2, partition_example 4 2] \<rparr>"

definition task_example ::
  "nat \<Rightarrow> (string \<times> int list, string list) udf list \<Rightarrow> string list option
     \<Rightarrow> (string \<times> int list, string list, unit) udftask" where
  "task_example i udfs backends =
     \<lparr> task_partition = partition_example (2 * i) 2, task_idx = i, task_udfs = udfs,
       task_roi = None, task_backends = backends, task_corrections = None \<rparr>"

definition nfp_example ::
  "partition \<Rightarrow> bool list option \<Rightarrow> (string \<times> int list) bufferwrapper
     \<Rightarrow> (string \<times> int list) bufferwrapper" where
  "nfp_example p roi b =
     b\<lparr> raw_data :=
          (fst (raw_data b),
           case roi of
             None \<Rightarrow> take (slice_shape p) (drop (slice_origin p) (snd (raw_data b)))
           | Some r \<Rightarrow> take (count_nonzero (roi_for_partition r p))
                        (drop (count_nonzero (take (slice_origin p) r)) (snd (raw_data b)))) \<rparr>"

definition aux_udf_example :: "int list \<Rightarrow> (string \<times> int list, string list) udf" where
  "aux_udf_example weights =
     (udf_init [(''weights'', Buf (buffer ''nav'' ''float32'' (''float32'', weights)))])
        \<lparr> get_result_buffers := Some [(''pixelsum'', buffer ''nav'' ''float32'' (''float32'', []))],
           has_process_frame := True \<rparr>"




section \<open>Method selection\<close>

text \<open>
  C8, as stated, fails: a UDF that has both \<open>process_tile\<close> and \<open>process_frame\<close> is not
  refused; \<open>get_method\<close> answers \<open>'tile'\<close>.
\<close>

theorem get_method_two_declared_counterexample:
  "get_method (PixelsumUDF\<lparr> has_process_tile := True \<rparr>) = Inr ''tile''
   \<and> has_process_tile (PixelsumUDF\<lparr> has_process_tile := True \<rparr>)
   \<and> has_process_frame (PixelsumUDF\<lparr> has_process_tile := True \<rparr>)"
  by (simp add: get_method_def PixelsumUDF_def udf_init_def)

text \<open>
  C8, amended: \<open>get_method\<close> raises \<open>TypeError\<close> exactly for a UDF that has none of the three
  methods; for a UDF that has one or more of them it never raises and answers the first one
  present in the order tile, frame, partition.
\<close>

theorem get_method_precedence:
  "(get_method u = Inl TypeError
      \<longleftrightarrow> \<not> (has_process_tile u \<or> has_process_frame u \<or> has_process_partition u))
   \<and> (get_method u = Inr ''tile'' \<longleftrightarrow> has_process_tile u)
   \<and> (get_method u = Inr ''frame'' \<longleftrightarrow> \<not> has_process_tile u \<and> has_process_frame u)
   \<and> (get_method u = Inr ''partition''
        \<longleftrightarrow> \<not> has_process_tile u \<and> \<not> has_process_frame u \<and> has_process_partition u)"
  by (simp add: get_method_def)

theorem get_method_precedence_witness:
  "get_method (udf_init [] :: (string \<times> int list, unit) udf) = Inl TypeError
   \<and> get_method PixelsumUDF = Inr ''frame''
   \<and> get_method (DebugDeviceUDF [''cupy'', ''numpy'']) = Inr ''partition''"
  using get_method_precedence [of "udf_init [] :: (string \<times> int list, unit) udf"]
        get_method_precedence [of PixelsumUDF]
        get_method_precedence [of "DebugDeviceUDF [''cupy'', ''numpy'']"]
  by (simp add: PixelsumUDF_def DebugDeviceUDF_def udf_init_def)

section \<open>Splitting the UDF set by device class\<close>

lemma udf_lists_cuda_filter:
  "udf_lists_cuda us ns cs =
     (if list_all (\<lambda>u. ''cuda'' \<in> set (get_backends u) \<or> ''cupy'' \<in> set (get_backends u)) us
      then Inr (ns @ filter (\<lambda>u. ''cuda'' \<in> set (get_backends u)) us,
                cs @ filter (\<lambda>u. ''cuda'' \<notin> set (get_backends u) \<and> ''cupy'' \<in> set (get_backends u)) us)
      else Inl ValueError)"
proof (induction us arbitrary: ns cs)
  case Nil
  show ?case by simp
next
  case (Cons u us)
  show ?case
  proof (cases "''cuda'' \<in> set (get_backends u)")
    case True
    then show ?thesis using Cons.IH [of "ns @ [u]" cs] by simp
  next
    case False
    then show ?thesis using Cons.IH [of ns "cs @ [u]"] by simp
  qed
qed

text \<open>
  C2: on a \<open>'cuda'\<close> worker the UDFs that list \<open>'cuda'\<close> form the host-mode list, the remaining
  ones that list \<open>'cupy'\<close> form the device-mode list (both in the order of the UDF set), and one
  UDF with neither makes the call raise; on a \<open>'cpu'\<close> worker every UDF has to list \<open>'numpy'\<close>
  (the assertion fails otherwise), the host-mode list is the whole UDF set and the device-mode
  list is empty; any other device class raises.
\<close>

theorem udf_lists_split:
  "udf_lists udfs ''cuda'' =
     (if list_all (\<lambda>u. ''cuda'' \<in> set (get_backends u) \<or> ''cupy'' \<in> set (get_backends u)) udfs
      then Inr (filter (\<lambda>u. ''cuda'' \<in> set (get_backends u)) udfs,
                filter (\<lambda>u. ''cuda'' \<notin> set (get_backends u) \<and> ''cupy'' \<in> set (get_backends u)) udfs)
      else Inl ValueError)
   \<and> udf_lists udfs ''cpu'' =
     (if list_all (\<lambda>u. ''numpy'' \<in> set (get_backends u)) udfs
      then Inr (udfs, []) else Inl AssertionError)
   \<and> (device_class \<noteq> ''cuda'' \<and> device_class \<noteq> ''cpu''
        \<longrightarrow> udf_lists udfs device_class = Inl ValueError)"
  by (simp add: udf_lists_def udf_lists_cuda_filter)

theorem udf_lists_split_witness:
  "udf_lists [DebugDeviceUDF [''cupy'', ''numpy''], DebugDeviceUDF [''cuda''], PixelsumUDF] ''cuda''
     = Inl ValueError
   \<and> udf_lists [DebugDeviceUDF [''cupy'', ''numpy''], DebugDeviceUDF [''cuda'']] ''cuda''
     = Inr ([DebugDeviceUDF [''cuda'']], [DebugDeviceUDF [''cupy'', ''numpy'']])
   \<and> udf_lists [DebugDeviceUDF [''cupy'', ''numpy''], PixelsumUDF] ''cpu''
     = Inr ([DebugDeviceUDF [''cupy'', ''numpy''], PixelsumUDF], [])
   \<and> udf_lists [DebugDeviceUDF [''cupy''], PixelsumUDF] ''cpu'' = Inl AssertionError
   \<and> ''gpu'' \<noteq> ''cuda'' \<and> ''gpu'' \<noteq> ''cpu''
   \<and> udf_lists [PixelsumUDF] ''gpu'' = Inl ValueError"
  using udf_lists_split
          [of "[DebugDeviceUDF [''cupy'', ''numpy''], DebugDeviceUDF [''cuda''], PixelsumUDF]" "''gpu''"]
        udf_lists_split [of "[DebugDeviceUDF [''cupy'', ''numpy''], DebugDeviceUDF [''cuda'']]" "''gpu''"]
        udf_lists_split [of "[DebugDeviceUDF [''cupy'', ''numpy''], PixelsumUDF]" "''gpu''"]
        udf_lists_split [of "[DebugDeviceUDF [''cupy''], PixelsumUDF]" "''gpu''"]
        udf_lists_split [of "[PixelsumUDF]" "''gpu''"]
  by (simp add: PixelsumUDF_def DebugDeviceUDF_def udf_init_def)

text \<open>
  C9: on a \<open>'cuda'\<close> worker a UDF of the set whose backends contain both \<open>'cuda'\<close> and \<open>'cupy'\<close>
  is in the host-mode (numpy) list and not in the device-mode (cupy) list.
\<close>

theorem udf_lists_cuda_before_cupy:
  assumes "udf_lists udfs ''cuda'' = Inr (numpy_udfs, cupy_udfs)"
    and "u \<in> set udfs"
    and "''cuda'' \<in> set (get_backends u)"
    and "''cupy'' \<in> set (get_backends u)"
  shows "u \<in> set numpy_udfs \<and> u \<notin> set cupy_udfs"
proof -
  from assms(1) have
    "numpy_udfs = filter (\<lambda>u. ''cuda'' \<in> set (get_backends u)) udfs"
    "cupy_udfs = filter (\<lambda>u. ''cuda'' \<notin> set (get_backends u) \<and> ''cupy'' \<in> set (get_backends u)) udfs"
    by (auto simp: udf_lists_def udf_lists_cuda_filter split: if_splits)
  with assms(2,3) show ?thesis by simp
qed

theorem udf_lists_cuda_before_cupy_witness:
  "udf_lists [DebugDeviceUDF [''cupy''], DebugDeviceUDF [''cupy'', ''cuda'']] ''cuda''
     = Inr ([DebugDeviceUDF [''cupy'', ''cuda'']], [DebugDeviceUDF [''cupy'']])
   \<and> DebugDeviceUDF [''cupy'', ''cuda''] \<in> set [DebugDeviceUDF [''cupy''], DebugDeviceUDF [''cupy'', ''cuda'']]
   \<and> ''cuda'' \<in> set (get_backends (DebugDeviceUDF [''cupy'', ''cuda'']))
   \<and> ''cupy'' \<in> set (get_backends (DebugDeviceUDF [''cupy'', ''cuda'']))
   \<and> DebugDeviceUDF [''cupy'', ''cuda''] \<in> set [DebugDeviceUDF [''cupy'', ''cuda'']]
   \<and> DebugDeviceUDF [''cupy'', ''cuda''] \<notin> set [DebugDeviceUDF [''cupy'']]"
proof -
  have a: "udf_lists [DebugDeviceUDF [''cupy''], DebugDeviceUDF [''cupy'', ''cuda'']] ''cuda''
     = Inr ([DebugDeviceUDF [''cupy'', ''cuda'']], [DebugDeviceUDF [''cupy'']])"
    by (simp add: udf_lists_def DebugDeviceUDF_def udf_init_def)
  have b: "DebugDeviceUDF [''cupy'', ''cuda'']
            \<in> set [DebugDeviceUDF [''cupy''], DebugDeviceUDF [''cupy'', ''cuda'']]"
    by simp
  have c: "''cuda'' \<in> set (get_backends (DebugDeviceUDF [''cupy'', ''cuda'']))"
    by (simp add: DebugDeviceUDF_def udf_init_def)
  have d: "''cupy'' \<in> set (get_backends (DebugDeviceUDF [''cupy'', ''cuda'']))"
    by (simp add: DebugDeviceUDF_def udf_init_def)
  from udf_lists_cuda_before_cupy [OF a b c d] a b c d show ?thesis by simp
qed

section \<open>Attribute access on \<open>UDFData\<close>\<close>

text \<open>
  The constructor establishes \<open>views_within_data\<close> and every method that touches \<open>_views\<close> or
  \<open>_data\<close> keeps it.
\<close>

lemma get_buffers_keys: "fst ` set (get_buffers xs) \<subseteq> fst ` set xs"
  by (induction xs rule: get_buffers.induct) auto

lemma dom_set_views_loop: "dom (set_views_loop gv bs vs) = dom vs \<union> fst ` set bs"
proof (induction bs arbitrary: vs)
  case Nil
  show ?case by simp
next
  case (Cons a bs)
  obtain k b where a: "a = (k, b)" by (cases a)
  have "dom (set_views_loop gv bs (vs(k \<mapsto> gv b))) = dom (vs(k \<mapsto> gv b)) \<union> fst ` set bs"
    by (rule Cons.IH)
  then show ?case by (simp add: a)
qed

lemma new_for_partition_loop_keys: "map fst (new_for_partition_loop nfp xs) = map fst xs"
  by (induction nfp xs rule: new_for_partition_loop.induct) auto

lemma UDFData_init_views_within_data: "views_within_data (UDFData_init kw)"
  by (simp add: views_within_data_def UDFData_init_def)

lemma set_view_for_views_within_data:
  "views_within_data d \<Longrightarrow> views_within_data (set_view_for gv d)"
  using get_buffers_keys [of "data d"]
  by (auto simp: views_within_data_def set_view_for_def dom_set_views_loop)

lemma clear_views_views_within_data: "views_within_data (clear_views d)"
  by (simp add: views_within_data_def clear_views_def)

lemma new_for_partition_views_within_data:
  "views_within_data d \<Longrightarrow> views_within_data (new_for_partition nfp d)"
proof -
  have "fst ` set (new_for_partition_loop nfp (data d)) = fst ` set (data d)"
    using new_for_partition_loop_keys [of nfp "data d"] by (metis set_map)
  then show "views_within_data d \<Longrightarrow> views_within_data (new_for_partition nfp d)"
    by (simp add: views_within_data_def new_for_partition_def)
qed

text \<open>
  C10: for a \<open>UDFData\<close> whose views lie under keys of \<open>_data\<close>, a key that is absent from \<open>_data\<close>
  and any default, \<open>get\<close> raises \<open>AttributeError\<close> and does not answer the default.
\<close>

theorem get_absent_key_raises_AttributeError:
  assumes "views_within_data d" and "k \<notin> fst ` set (data d)"
  shows "get d k dflt = Inl AttributeError"
proof -
  from assms have v: "views d k = None"
    by (auto simp: views_within_data_def)
  from assms(2) have m: "map_of (data d) k = None"
    by (simp add: map_of_eq_None_iff)
  show ?thesis
    by (simp add: get_def getattr_def get_view_or_data_def v m)
qed

theorem get_absent_key_raises_AttributeError_witness:
  "views_within_data results_example
   \<and> ''missing'' \<notin> fst ` set (data results_example)
   \<and> get results_example ''missing'' (Other ()) = Inl AttributeError"
proof -
  have a: "views_within_data results_example"
    by (simp add: results_example_def views_within_data_def set_view_for_def UDFData_init_def)
  have b: "''missing'' \<notin> fst ` set (data results_example)"
    by (simp add: results_example_def set_view_for_def UDFData_init_def)
  from get_absent_key_raises_AttributeError [OF a b, of "Other ()"] a b show ?thesis by simp
qed

section \<open>The default merge\<close>

lemma merge_loop_not_NotImplementedError:
  "fst (merge_loop np src dest) \<noteq> Some NotImplementedError"
proof (induction dest)
  case Nil
  show ?case by simp
next
  case (Cons a dest)
  obtain k d where a: "a = (k, d)" by (cases a)
  from Cons.IH show ?case
    by (cases "merge_loop np src dest")
       (simp add: a check_cast_def split: option.splits)
qed

lemma merge_loop_copies:
  "fst (merge_loop np src dest) = None \<Longrightarrow>
     list_all2 (\<lambda>(k, d) (k', d'). k' = k \<and>
         (\<exists>s. map_of src k = Some s \<and> can_cast np (np_dtype np d) (np_dtype np s)
              \<and> setitem np d s = Some d'))
       dest (snd (merge_loop np src dest))"
proof (induction dest)
  case Nil
  show ?case by simp
next
  case (Cons a dest)
  obtain k d where a: "a = (k, d)" by (cases a)
  obtain e rest' where r: "merge_loop np src dest = (e, rest')"
    by (cases "merge_loop np src dest")
  from Cons.prems have "e = None"
    by (auto simp: a r check_cast_def split: option.splits if_splits)
  with Cons.IH r have "list_all2 (\<lambda>(k, d) (k', d'). k' = k \<and>
         (\<exists>s. map_of src k = Some s \<and> can_cast np (np_dtype np d) (np_dtype np s)
              \<and> setitem np d s = Some d')) dest rest'"
    by simp
  with Cons.prems show ?case
    by (auto simp: a r check_cast_def split: option.splits if_splits)
qed

lemma merge_requires_custom_merge:
  assumes "get_result_buffers u = Some buffers"
    and "requires_custom_merge_cache u = None"
  shows "fst (requires_custom_merge u) = Inr (list_ex (\<lambda>b. kind b \<noteq> ''nav'') (map snd buffers))"
    and "fst (merge np u dest src) =
           (if list_ex (\<lambda>b. kind b \<noteq> ''nav'') (map snd buffers)
            then (Some NotImplementedError, dest) else merge_loop np src dest)"
  using assms by (auto simp: merge_def requires_custom_merge_def Let_def)

lemma merge_loop_single:
  "merge_loop np [(k, s)] [(k, d)] =
     (if \<not> can_cast np (np_dtype np d) (np_dtype np s) then (Some TypeError, [(k, d)])
      else case setitem np d s of
             None \<Rightarrow> (Some ValueError, [(k, d)])
           | Some d' \<Rightarrow> (None, [(k, d')]))"
  by (simp add: check_cast_def split: option.splits)

text \<open>
  C1: the default \<open>merge\<close> raises \<open>NotImplementedError\<close>, leaving \<open>dest\<close> as it was, exactly for a
  UDF with a buffer of \<open>kind != 'nav'\<close> (lemma \<open>merge_requires_custom_merge\<close>), and is the loop
  over the keys of \<open>dest\<close> otherwise. The check in that loop is not the check of the copy it
  guards: \<open>dest[k][:] = src[k]\<close> casts the dtype of \<open>src[k]\<close> to that of \<open>dest[k]\<close>, while the call
  \<open>check_cast(dest[k], src[k])\<close> hands \<open>dest[k]\<close> to the parameter \<open>fromvar\<close> and so asks whether
  the dtype of \<open>dest[k]\<close> casts safely to that of \<open>src[k]\<close>. For \<open>PixelsumUDF\<close>, whose only buffer
  has kind \<open>'nav'\<close>: merging an int16 partial result into a float32 global result, a safe
  cast, raises \<open>TypeError\<close> and copies nothing; merging a float32 partial result into an int16
  global result, an unsafe cast, passes the check and is copied.
\<close>

theorem merge_check_cast_direction:
  "fst (requires_custom_merge PixelsumUDF) = Inr False
   \<and> can_cast numpy_example ''int16'' ''float32''
   \<and> fst (merge numpy_example PixelsumUDF
            [(''pixelsum'', (''float32'', [0, 0]))] [(''pixelsum'', (''int16'', [1, 2]))])
       = (Some TypeError, [(''pixelsum'', (''float32'', [0, 0]))])
   \<and> \<not> can_cast numpy_example ''float32'' ''int16''
   \<and> fst (merge numpy_example PixelsumUDF
            [(''pixelsum'', (''int16'', [0, 0]))] [(''pixelsum'', (''float32'', [1, 2]))])
       = (None, [(''pixelsum'', (''int16'', [1, 2]))])"
  by (simp add: merge_def requires_custom_merge_def PixelsumUDF_def udf_init_def buffer_def
        check_cast_def numpy_example_def dtype_rank_def)

section \<open>Task resources\<close>

lemma intersection_update_all_Inter:
  "intersection_update_all backends ss = backends \<inter> \<Inter> (set ss)"
  by (induction ss arbitrary: backends) auto

text \<open>
  C4: for a task with at least one UDF, let \<open>B\<close> be the intersection of the backend sets of all
  its UDFs, narrowed by the dispatcher-level \<open>backends\<close> filter when one is given. Then
  \<open>get_resources\<close> is decided by \<open>B\<close> alone: an empty \<open>B\<close> raises \<open>ValueError\<close>; \<open>B\<close> with \<open>'numpy'\<close>
  and one of \<open>'cupy'\<close>, \<open>'cuda'\<close> answers \<open>{'compute': 1}\<close>; \<open>B\<close> with \<open>'numpy'\<close> and neither answers
  \<open>{'CPU': 1, 'compute': 1}\<close>, in particular \<open>B = {'numpy'}\<close>; \<open>B\<close> without \<open>'numpy'\<close> but with
  \<open>'cupy'\<close> or \<open>'cuda'\<close> answers \<open>{'CUDA': 1, 'compute': 1}\<close>, in particular every non-empty \<open>B\<close>
  within \<open>{'cuda', 'cupy'}\<close>; a non-empty \<open>B\<close> with none of the three names raises \<open>ValueError\<close>.
\<close>

theorem get_resources_by_intersection:
  assumes "task_udfs t \<noteq> []"
    and "B = (\<Inter>u \<in> set (task_udfs t). set (get_backends u))
              \<inter> (case task_backends t of None \<Rightarrow> UNIV | Some bs \<Rightarrow> set bs)"
  shows "get_resources t =
           (if B = {} then Inl ValueError
            else if ''numpy'' \<in> B \<and> (''cupy'' \<in> B \<or> ''cuda'' \<in> B) then Inr [(''compute'', 1)]
            else if ''numpy'' \<in> B then Inr [(''CPU'', 1), (''compute'', 1)]
            else if ''cupy'' \<in> B \<or> ''cuda'' \<in> B then Inr [(''CUDA'', 1), (''compute'', 1)]
            else Inl ValueError)
     \<and> (B = {''numpy''} \<longrightarrow> get_resources t = Inr [(''CPU'', 1), (''compute'', 1)])
     \<and> (''numpy'' \<in> B \<and> (''cuda'' \<in> B \<or> ''cupy'' \<in> B)
          \<longrightarrow> get_resources t = Inr [(''compute'', 1)])
     \<and> (B \<noteq> {} \<and> B \<subseteq> {''cuda'', ''cupy''}
          \<longrightarrow> get_resources t = Inr [(''CUDA'', 1), (''compute'', 1)])
     \<and> (B = {} \<longrightarrow> get_resources t = Inl ValueError)"
proof -
  obtain u us where us: "task_udfs t = u # us" using assms(1) by (cases "task_udfs t") auto
  define K where "K = (\<Inter>u \<in> set (task_udfs t). set (get_backends u))"
  have I: "intersection_update_all (set (get_backends u))
              (set (get_backends u) # map (\<lambda>u. set (get_backends u)) us) = K"
    by (auto simp: intersection_update_all_Inter us K_def)
  have B: "B = (case task_backends t of None \<Rightarrow> K | Some bs \<Rightarrow> set bs \<inter> K)"
    unfolding assms(2) K_def by (auto split: option.splits)
  have "get_resources t =
           (let backends = (case task_backends t of None \<Rightarrow> K | Some bs \<Rightarrow> set bs \<inter> K)
            in if backends = {} then Inl ValueError
            else if ''numpy'' \<in> backends \<and> (''cupy'' \<in> backends \<or> ''cuda'' \<in> backends) then Inr [(''compute'', 1)]
            else if ''numpy'' \<in> backends then Inr [(''CPU'', 1), (''compute'', 1)]
            else if ''cupy'' \<in> backends \<or> ''cuda'' \<in> backends then Inr [(''CUDA'', 1), (''compute'', 1)]
            else Inl ValueError)"
    unfolding get_resources_def us list.map Let_def list.case I ..
  then have main: "get_resources t =
           (if B = {} then Inl ValueError
            else if ''numpy'' \<in> B \<and> (''cupy'' \<in> B \<or> ''cuda'' \<in> B) then Inr [(''compute'', 1)]
            else if ''numpy'' \<in> B then Inr [(''CPU'', 1), (''compute'', 1)]
            else if ''cupy'' \<in> B \<or> ''cuda'' \<in> B then Inr [(''CUDA'', 1), (''compute'', 1)]
            else Inl ValueError)"
    unfolding B Let_def .
  have a: "B = {''numpy''} \<longrightarrow> get_resources t = Inr [(''CPU'', 1), (''compute'', 1)]"
    unfolding main by simp
  have b: "''numpy'' \<in> B \<and> (''cuda'' \<in> B \<or> ''cupy'' \<in> B)
          \<longrightarrow> get_resources t = Inr [(''compute'', 1)]"
    unfolding main by auto
  have c: "B \<noteq> {} \<and> B \<subseteq> {''cuda'', ''cupy''}
          \<longrightarrow> get_resources t = Inr [(''CUDA'', 1), (''compute'', 1)]"
    unfolding main by auto
  have d: "B = {} \<longrightarrow> get_resources t = Inl ValueError"
    unfolding main by simp
  from main a b c d show ?thesis by (intro conjI)
qed

theorem get_resources_by_intersection_witness:
  "task_udfs (task_example 0 [DebugDeviceUDF [''numpy'', ''cupy''], PixelsumUDF] None) \<noteq> []
   \<and> get_resources (task_example 0 [DebugDeviceUDF [''numpy'', ''cupy''], PixelsumUDF] None)
     = Inr [(''CPU'', 1), (''compute'', 1)]
   \<and> get_resources (task_example 0 [DebugDeviceUDF [''numpy'', ''cupy''], PixelsumUDF] (Some [''cupy'']))
     = Inl ValueError
   \<and> get_resources (task_example 0 [DebugDeviceUDF [''cupy'', ''numpy'']] None)
     = Inr [(''compute'', 1)]
   \<and> get_resources (task_example 0 [DebugDeviceUDF [''cupy'', ''numpy'']] (Some [''cupy'', ''cuda'']))
     = Inr [(''CUDA'', 1), (''compute'', 1)]"
  using get_resources_by_intersection
          [of "task_example 0 [DebugDeviceUDF [''numpy'', ''cupy''], PixelsumUDF] None" "{''numpy''}"]
        get_resources_by_intersection
          [of "task_example 0 [DebugDeviceUDF [''numpy'', ''cupy''], PixelsumUDF] (Some [''cupy''])" "{}"]
        get_resources_by_intersection
          [of "task_example 0 [DebugDeviceUDF [''cupy'', ''numpy'']] None" "{''cupy'', ''numpy''}"]
        get_resources_by_intersection
          [of "task_example 0 [DebugDeviceUDF [''cupy'', ''numpy'']] (Some [''cupy'', ''cuda''])" "{''cupy''}"]
  by (simp add: task_example_def DebugDeviceUDF_def PixelsumUDF_def udf_init_def)

section \<open>The input dtype\<close>


lemma get_dtype_example:
  "get_dtype numpy_example [PixelsumUDF, PixelsumUDF\<lparr> get_preferred_input_dtype := ''bool'' \<rparr>]
     ''int16'' = ''float32''"
  "get_dtype numpy_example [PixelsumUDF, PixelsumUDF\<lparr> get_preferred_input_dtype := ''bool'' \<rparr>]
     ''complex64'' = ''complex64''"
  by (simp_all add: numpy_example_def dtype_rank_def PixelsumUDF_def udf_init_def)

section \<open>Task generation\<close>

lemma make_udf_tasks_loop_enumerate:
  "make_udf_tasks_loop nfp udfs roi corrections backends i ps =
     map (\<lambda>(idx, p). \<lparr> task_partition = p, task_idx = idx,
                        task_udfs = map (\<lambda>u. copy_for_partition nfp u p roi) udfs,
                        task_roi = roi, task_backends = backends,
                        task_corrections = corrections \<rparr>)
       (filter (\<lambda>(idx, p). case roi of None \<Rightarrow> True
                              | Some r \<Rightarrow> count_nonzero (roi_for_partition r p) \<noteq> 0)
          (enumerate i ps))"
  by (induction ps arbitrary: i) (simp_all split: option.splits)

lemma new_for_partition_loop_map:
  "new_for_partition_loop f xs =
     map (\<lambda>(k, e). (k, case e of Buf b \<Rightarrow> Buf (f b) | Plain x \<Rightarrow> Plain x)) xs"
  by (induction f xs rule: new_for_partition_loop.induct) simp_all

text \<open>
  C7: the tasks of \<open>_make_udf_tasks\<close> are, in partition order and with the partition's position
  in \<open>get_partitions()\<close> as index, one task for every partition that is kept: with no ROI every
  partition, with a ROI the partitions whose part of the ROI has a non-zero entry. Every task
  carries \<open>copy_for_partition(partition, roi)\<close> of every UDF, which is a fresh instance of the
  UDF's class from the same keyword arguments whose buffer parameters have been replaced by
  \<open>buf.new_for_partition(partition, roi)\<close>.
\<close>

theorem make_udf_tasks_per_partition:
  "make_udf_tasks nfp udfs ds roi corrections backends =
     map (\<lambda>(idx, p). \<lparr> task_partition = p, task_idx = idx,
                        task_udfs = map (\<lambda>u. copy_for_partition nfp u p roi) udfs,
                        task_roi = roi, task_backends = backends,
                        task_corrections = corrections \<rparr>)
       (filter (\<lambda>(idx, p). case roi of None \<Rightarrow> True
                              | Some r \<Rightarrow> count_nonzero (roi_for_partition r p) \<noteq> 0)
          (enumerate 0 (get_partitions ds)))
   \<and> (roi = None \<longrightarrow>
        map (\<lambda>t. (task_idx t, task_partition t)) (make_udf_tasks nfp udfs ds roi corrections backends)
          = enumerate 0 (get_partitions ds))
   \<and> (\<forall>r. roi = Some r \<longrightarrow>
        map (\<lambda>t. (task_idx t, task_partition t)) (make_udf_tasks nfp udfs ds roi corrections backends)
          = filter (\<lambda>(idx, p). count_nonzero (roi_for_partition r p) \<noteq> 0)
              (enumerate 0 (get_partitions ds)))
   \<and> (\<forall>t \<in> set (make_udf_tasks nfp udfs ds roi corrections backends).
        task_udfs t = map (\<lambda>u. copy_for_partition nfp u (task_partition t) roi) udfs)
   \<and> (\<forall>u p. data (params (copy_for_partition nfp u p roi))
              = map (\<lambda>(k, e). (k, case e of Buf b \<Rightarrow> Buf (nfp p roi b) | Plain x \<Rightarrow> Plain x))
                  (kwargs u)
          \<and> copy_for_partition nfp u p roi
              = (new_instance u (kwargs u))
                  \<lparr> params := new_for_partition (nfp p roi) (UDFData_init (kwargs u)),
                     kwargs := new_for_partition_loop (nfp p roi) (kwargs u) \<rparr>)"
proof -
  let ?mk = "\<lambda>(idx, p). \<lparr> task_partition = p, task_idx = idx,
                        task_udfs = map (\<lambda>u. copy_for_partition nfp u p roi) udfs,
                        task_roi = roi, task_backends = backends,
                        task_corrections = corrections \<rparr>"
  let ?keep = "\<lambda>(idx :: nat, p). case roi of None \<Rightarrow> True
                              | Some r \<Rightarrow> count_nonzero (roi_for_partition r p) \<noteq> 0"
  have m: "make_udf_tasks nfp udfs ds roi corrections backends
             = map ?mk (filter ?keep (enumerate 0 (get_partitions ds)))"
    unfolding make_udf_tasks_def by (rule make_udf_tasks_loop_enumerate)
  have ip: "(\<lambda>t. (task_idx t, task_partition t)) \<circ> ?mk = id"
    by (auto simp: fun_eq_iff)
  have a: "roi = None \<longrightarrow>
        map (\<lambda>t. (task_idx t, task_partition t)) (make_udf_tasks nfp udfs ds roi corrections backends)
          = enumerate 0 (get_partitions ds)"
    unfolding m map_map ip by simp
  have b: "\<forall>r. roi = Some r \<longrightarrow>
        map (\<lambda>t. (task_idx t, task_partition t)) (make_udf_tasks nfp udfs ds roi corrections backends)
          = filter (\<lambda>(idx, p). count_nonzero (roi_for_partition r p) \<noteq> 0)
              (enumerate 0 (get_partitions ds))"
    unfolding m map_map ip by simp
  have c: "\<forall>t \<in> set (make_udf_tasks nfp udfs ds roi corrections backends).
        task_udfs t = map (\<lambda>u. copy_for_partition nfp u (task_partition t) roi) udfs"
    unfolding m by auto
  have d: "\<forall>u p. data (params (copy_for_partition nfp u p roi))
              = map (\<lambda>(k, e). (k, case e of Buf b \<Rightarrow> Buf (nfp p roi b) | Plain x \<Rightarrow> Plain x))
                  (kwargs u)
          \<and> copy_for_partition nfp u p roi
              = (new_instance u (kwargs u))
                  \<lparr> params := new_for_partition (nfp p roi) (UDFData_init (kwargs u)),
                     kwargs := new_for_partition_loop (nfp p roi) (kwargs u) \<rparr>"
    by (simp add: copy_for_partition_def new_instance_def new_for_partition_def UDFData_init_def
          Let_def new_for_partition_loop_map)
  from m a b c d show ?thesis by blast
qed

theorem make_udf_tasks_per_partition_witness:
  "map (\<lambda>t. (task_idx t, slice_origin (task_partition t)))
       (make_udf_tasks nfp_example [aux_udf_example [10, 60]] dataset_example
          (Some [True, False, False, False, False, True]) (None :: unit option) None)
     = [(0, 0), (2, 4)]
   \<and> map (\<lambda>t. map (\<lambda>u. data (params u)) (task_udfs t))
       (make_udf_tasks nfp_example [aux_udf_example [10, 60]] dataset_example
          (Some [True, False, False, False, False, True]) (None :: unit option) None)
     = [[[(''weights'', Buf (buffer ''nav'' ''float32'' (''float32'', [10])))]],
        [[(''weights'', Buf (buffer ''nav'' ''float32'' (''float32'', [60])))]]]
   \<and> map (\<lambda>t. (task_idx t, slice_origin (task_partition t)))
       (make_udf_tasks nfp_example [aux_udf_example [10, 20, 30, 40, 50, 60]] dataset_example
          None (None :: unit option) None)
     = [(0, 0), (1, 2), (2, 4)]
   \<and> map (\<lambda>t. map (\<lambda>u. data (params u)) (task_udfs t))
       (make_udf_tasks nfp_example [aux_udf_example [10, 20, 30, 40, 50, 60]] dataset_example
          None (None :: unit option) None)
     = [[[(''weights'', Buf (buffer ''nav'' ''float32'' (''float32'', [10, 20])))]],
        [[(''weights'', Buf (buffer ''nav'' ''float32'' (''float32'', [30, 40])))]],
        [[(''weights'', Buf (buffer ''nav'' ''float32'' (''float32'', [50, 60])))]]]"
  using make_udf_tasks_per_partition
          [of nfp_example "[aux_udf_example [10, 60]]" dataset_example
              "Some [True, False, False, False, False, True]" "None :: unit option" None]
        make_udf_tasks_per_partition
          [of nfp_example "[aux_udf_example [10, 20, 30, 40, 50, 60]]" dataset_example
              None "None :: unit option" None]
  by (simp add: make_udf_tasks_def copy_for_partition_def new_instance_def new_for_partition_def
        UDFData_init_def dataset_example_def partition_example_def count_nonzero_def
        roi_for_partition_def aux_udf_example_def udf_init_def nfp_example_def buffer_def Let_def)

section \<open>Snapshots of the asynchronous dispatcher\<close>









section \<open>The CUDA device across \<open>run_for_partition\<close>\<close>



end
